theory Spec2Isabelle
  imports Complex_Main "HOL-Library.AList"
begin

section \<open>Data model of the renderer store (stores/checker.ts)\<close>

text \<open>
  JavaScript numbers are modelled as rationals: the store only compares, copies and
  displays them. The four severity strings of \<open>AccessibilityIssue.severity\<close> are a
  datatype; \<open>severity_name\<close> gives back the string the source compares with.
\<close>

datatype Severity = Low | Medium | High | Critical

fun severity_name :: "Severity \<Rightarrow> string" where
  "severity_name Low = ''low''"
| "severity_name Medium = ''medium''"
| "severity_name High = ''high''"
| "severity_name Critical = ''critical''"

record AccessibilityIssue =
  issue_type :: string
  severity :: Severity
  message :: string
  description :: string
  element :: "string option"
  line_number :: "nat option"
  recommendation :: string
  wcag_reference :: "string option"

record CategoryScore =
  category :: string
  score :: rat
  max_score :: rat
  issues_count :: nat
  passed_checks :: nat
  total_checks :: nat

text \<open>
  The \<open>issues\<close> array of a result is an object of its own on the JavaScript heap, and
  \<open>ReportView.vue\<close> sorts it through an alias. The field therefore holds the array's
  address; the arrays live in an \<open>array_heap\<close>, whose addresses are list positions.
\<close>

type_synonym addr = nat

type_synonym array_heap = "AccessibilityIssue list list"

record CheckResult =
  url :: string
  total_score :: rat
  category_scores :: "(string \<times> CategoryScore) list"
  issues :: addr
  summary :: "(string \<times> string) list"
  checked_at :: string
  check_duration :: rat

text \<open>
  The reactive state of \<open>useCheckerStore\<close>. \<open>defaultOptions\<close> holds the address of
  the current options object (see the object heap below).
\<close>

record CheckerStore =
  isChecking :: bool
  currentStep :: string
  progress :: nat
  checkResults :: "CheckResult list"
  currentResult :: "CheckResult option"
  defaultOptions :: addr

subsection \<open>Getters and the history actions\<close>

definition hasResults :: "CheckerStore \<Rightarrow> bool" where
  "hasResults s = (length (checkResults s) > 0)"

definition latestResult :: "CheckerStore \<Rightarrow> CheckResult option" where
  "latestResult s =
     (if length (checkResults s) > 0 then Some (checkResults s ! 0) else None)"

text \<open>\<open>unshift\<close> puts the result in front; \<open>slice(0, 10)\<close> keeps the first ten.\<close>

definition addResult :: "CheckResult \<Rightarrow> CheckerStore \<Rightarrow> CheckerStore" where
  "addResult result s =
     (let unshifted = result # checkResults s
      in s\<lparr>checkResults :=
             (if length unshifted > 10 then take 10 unshifted else unshifted)\<rparr>)"

text \<open>
  \<open>find\<close> returns the first element that satisfies the callback or \<open>undefined\<close>;
  a result object is truthy, so \<open>|| null\<close> only turns \<open>undefined\<close> into \<open>null\<close>.
  The action has no statement that writes the store: the returned store is its argument.
\<close>

definition getResultById :: "string \<Rightarrow> CheckerStore \<Rightarrow> CheckResult option \<times> CheckerStore" where
  "getResultById ident s =
     (List.find (\<lambda>result. checked_at result = ident) (checkResults s), s)"

definition clearResults :: "CheckerStore \<Rightarrow> CheckerStore" where
  "clearResults s = s\<lparr>checkResults := [], currentResult := None\<rparr>"

section \<open>JavaScript objects, errors and the object heap\<close>

text \<open>
  An object is its list of own properties in insertion order. Options objects and thrown
  errors are such objects; reading a property that is absent gives \<open>undefined\<close>.
\<close>

datatype js_value = JUndefined | JBool bool | JNum rat | JStr string

type_synonym js_object = "(string \<times> js_value) list"

type_synonym object_heap = "js_object list"

definition get_prop :: "js_object \<Rightarrow> string \<Rightarrow> js_value" where
  "get_prop obj k = (case map_of obj k of None \<Rightarrow> JUndefined | Some v \<Rightarrow> v)"

text \<open>\<open>new Error(msg)\<close>: an error object whose only data property is \<open>message\<close>.\<close>

definition new_Error :: "string \<Rightarrow> js_object" where
  "new_Error msg = [(''message'', JStr msg)]"

text \<open>
  \<open>{ ...a, ...b }\<close>: a fresh object that receives the properties of \<open>a\<close>, then those
  of \<open>b\<close>; a key already present keeps its place and takes the later value.
\<close>

definition object_spread :: "js_object \<Rightarrow> js_object \<Rightarrow> js_object" where
  "object_spread a b = fold (\<lambda>(k, v). AList.update k v) (a @ b) []"

subsection \<open>CheckOptions (stores/checker.ts, lines 4-12 and 51-59)\<close>

definition CheckOptions_keys :: "string list" where
  "CheckOptions_keys =
     [''enable_aria_check'', ''enable_semantic_check'', ''enable_image_check'',
      ''enable_media_check'', ''enable_visual_check'', ''include_screenshots'',
      ''wait_time'']"

definition initial_defaultOptions :: js_object where
  "initial_defaultOptions =
     [(''enable_aria_check'', JBool True), (''enable_semantic_check'', JBool True),
      (''enable_image_check'', JBool True), (''enable_media_check'', JBool True),
      (''enable_visual_check'', JBool True), (''include_screenshots'', JBool False),
      (''wait_time'', JNum 5)]"

definition is_enable_flag :: "string \<Rightarrow> bool" where
  "is_enable_flag k = (take 7 k = ''enable_'')"

text \<open>
  The six weighted categories of the README's score table (lines 113-119), with their
  weights in percent.
\<close>

datatype Category = ARIA | Semantic | Image | Media | Visual | Keyboard

definition all_categories :: "Category list" where
  "all_categories = [ARIA, Semantic, Image, Media, Visual, Keyboard]"

fun category_weight_percent :: "Category \<Rightarrow> nat" where
  "category_weight_percent ARIA = 25"
| "category_weight_percent Semantic = 20"
| "category_weight_percent Image = 15"
| "category_weight_percent Media = 15"
| "category_weight_percent Visual = 10"
| "category_weight_percent Keyboard = 15"

definition category_weight :: "Category \<Rightarrow> rat" where
  "category_weight c = of_nat (category_weight_percent c) / 100"

subsection \<open>Messages\<close>

text \<open>The Korean message texts of the source, as their UTF-8 bytes.\<close>

definition msg_check_failed_prefix :: string where
  "msg_check_failed_prefix =
     [CHR 0xEC, CHR 0xA0, CHR 0x91, CHR 0xEA, CHR 0xB7, CHR 0xBC, CHR 0xEC, CHR 0x84,
      CHR 0xB1, CHR 0x20, CHR 0xEA, CHR 0xB2, CHR 0x80, CHR 0xEC, CHR 0x82, CHR 0xAC,
      CHR 0x20, CHR 0xEC, CHR 0x8B, CHR 0xA4, CHR 0xED, CHR 0x8C, CHR 0xA8, CHR 0x3A,
      CHR 0x20]"

definition msg_unsupported_format :: string where
  "msg_unsupported_format =
     [CHR 0xEC, CHR 0xA7, CHR 0x80, CHR 0xEC, CHR 0x9B, CHR 0x90, CHR 0xED, CHR 0x95,
      CHR 0x98, CHR 0xEC, CHR 0xA7, CHR 0x80, CHR 0x20, CHR 0xEC, CHR 0x95, CHR 0x8A,
      CHR 0xEB, CHR 0x8A, CHR 0x94, CHR 0x20, CHR 0xEB, CHR 0x82, CHR 0xB4, CHR 0xEB,
      CHR 0xB3, CHR 0xB4, CHR 0xEB, CHR 0x82, CHR 0xB4, CHR 0xEA, CHR 0xB8, CHR 0xB0,
      CHR 0x20, CHR 0xED, CHR 0x98, CHR 0x95, CHR 0xEC, CHR 0x8B, CHR 0x9D, CHR 0xEC,
      CHR 0x9E, CHR 0x85, CHR 0xEB, CHR 0x8B, CHR 0x88, CHR 0xEB, CHR 0x8B, CHR 0xA4,
      CHR 0x2E]"

definition msg_preparing :: string where
  "msg_preparing =
     [CHR 0xEA, CHR 0xB2, CHR 0x80, CHR 0xEC, CHR 0x82, CHR 0xAC, CHR 0x20, CHR 0xEC,
      CHR 0xA4, CHR 0x80, CHR 0xEB, CHR 0xB9, CHR 0x84, CHR 0x20, CHR 0xEC, CHR 0xA4,
      CHR 0x91, CHR 0x2E, CHR 0x2E, CHR 0x2E]"

definition msg_done :: string where
  "msg_done =
     [CHR 0xEA, CHR 0xB2, CHR 0x80, CHR 0xEC, CHR 0x82, CHR 0xAC, CHR 0x20, CHR 0xEC,
      CHR 0x99, CHR 0x84, CHR 0xEB, CHR 0xA3, CHR 0x8C, CHR 0x21]"

definition msg_step1 :: string where
  "msg_step1 =
     [CHR 0xED, CHR 0x8E, CHR 0x98, CHR 0xEC, CHR 0x9D, CHR 0xB4, CHR 0xEC, CHR 0xA7,
      CHR 0x80, CHR 0x20, CHR 0xEB, CHR 0xA1, CHR 0x9C, CHR 0xEB, CHR 0x94, CHR 0xA9,
      CHR 0x20, CHR 0xEC, CHR 0xA4, CHR 0x91, CHR 0x2E, CHR 0x2E, CHR 0x2E]"

definition msg_step2 :: string where
  "msg_step2 =
     [CHR 0x48, CHR 0x54, CHR 0x4D, CHR 0x4C, CHR 0x20, CHR 0xEA, CHR 0xB5, CHR 0xAC,
      CHR 0xEC, CHR 0xA1, CHR 0xB0, CHR 0x20, CHR 0xEB, CHR 0xB6, CHR 0x84, CHR 0xEC,
      CHR 0x84, CHR 0x9D, CHR 0x20, CHR 0xEC, CHR 0xA4, CHR 0x91, CHR 0x2E, CHR 0x2E,
      CHR 0x2E]"

definition msg_step3 :: string where
  "msg_step3 =
     [CHR 0x41, CHR 0x52, CHR 0x49, CHR 0x41, CHR 0x20, CHR 0xEC, CHR 0x86, CHR 0x8D,
      CHR 0xEC, CHR 0x84, CHR 0xB1, CHR 0x20, CHR 0xEA, CHR 0xB2, CHR 0x80, CHR 0xEC,
      CHR 0x82, CHR 0xAC, CHR 0x20, CHR 0xEC, CHR 0xA4, CHR 0x91, CHR 0x2E, CHR 0x2E,
      CHR 0x2E]"

definition msg_step4 :: string where
  "msg_step4 =
     [CHR 0xEC, CHR 0x8B, CHR 0x9C, CHR 0xEB, CHR 0xA9, CHR 0x98, CHR 0xED, CHR 0x8B,
      CHR 0xB1, CHR 0x20, CHR 0xEA, CHR 0xB5, CHR 0xAC, CHR 0xEC, CHR 0xA1, CHR 0xB0,
      CHR 0x20, CHR 0xEA, CHR 0xB2, CHR 0x80, CHR 0xEC, CHR 0x82, CHR 0xAC, CHR 0x20,
      CHR 0xEC, CHR 0xA4, CHR 0x91, CHR 0x2E, CHR 0x2E, CHR 0x2E]"

definition msg_step5 :: string where
  "msg_step5 =
     [CHR 0xEC, CHR 0x9D, CHR 0xB4, CHR 0xEB, CHR 0xAF, CHR 0xB8, CHR 0xEC, CHR 0xA7,
      CHR 0x80, CHR 0x20, CHR 0xEC, CHR 0xA0, CHR 0x91, CHR 0xEA, CHR 0xB7, CHR 0xBC,
      CHR 0xEC, CHR 0x84, CHR 0xB1, CHR 0x20, CHR 0xEA, CHR 0xB2, CHR 0x80, CHR 0xEC,
      CHR 0x82, CHR 0xAC, CHR 0x20, CHR 0xEC, CHR 0xA4, CHR 0x91, CHR 0x2E, CHR 0x2E,
      CHR 0x2E]"

definition msg_step6 :: string where
  "msg_step6 =
     [CHR 0xEA, CHR 0xB2, CHR 0xB0, CHR 0xEA, CHR 0xB3, CHR 0xBC, CHR 0x20, CHR 0xEC,
      CHR 0xA0, CHR 0x95, CHR 0xEB, CHR 0xA6, CHR 0xAC, CHR 0x20, CHR 0xEC, CHR 0xA4,
      CHR 0x91, CHR 0x2E, CHR 0x2E, CHR 0x2E]"

definition steps :: "(string \<times> nat) list" where
  "steps =
     [(msg_step1, 10), (msg_step2, 20), (msg_step3, 40), (msg_step4, 60),
      (msg_step5, 80), (msg_step6, 95)]"

subsection \<open>startCheck and updateOptions\<close>

text \<open>
  \<open>invoke\<close> stands for \<open>ipcRenderer.invoke\<close>: the channel, the url and the content of
  the options object go to the main process, and the promise either resolves with
  the result or rejects with an error object. The references the store holds are valid
  addresses of the heap. The timer of the \<open>finally\<close> block runs a second after the
  action has returned and is outside this function.
\<close>

definition startCheck ::
  "(string \<Rightarrow> string \<Rightarrow> js_object \<Rightarrow> js_object + CheckResult) \<Rightarrow> string \<Rightarrow> addr option
     \<Rightarrow> CheckerStore \<times> object_heap \<Rightarrow> (js_object + CheckResult) \<times> CheckerStore \<times> object_heap" where
  "startCheck invoke u options sh =
     (case sh of (s, h) \<Rightarrow>
        let s1 = s\<lparr>isChecking := True, progress := 0, currentStep := msg_preparing\<rparr>;
            checkOptions = length h;
            h1 = h @ [object_spread (h ! defaultOptions s1)
                        (case options of None \<Rightarrow> [] | Some a \<Rightarrow> h ! a)];
            s2 = fold (\<lambda>(m, p) st. st\<lparr>currentStep := m, progress := p\<rparr>) steps s1
        in (case invoke ''check-accessibility'' u (h1 ! checkOptions) of
              Inr result \<Rightarrow>
                (Inr result,
                 (addResult result (s2\<lparr>progress := 100, currentStep := msg_done\<rparr>))
                   \<lparr>currentResult := Some result\<rparr>,
                 h1)
            | Inl error \<Rightarrow> (Inl error, s2, h1)))"

definition updateOptions :: "addr \<Rightarrow> CheckerStore \<times> object_heap \<Rightarrow> CheckerStore \<times> object_heap" where
  "updateOptions options sh =
     (case sh of (s, h) \<Rightarrow>
        (s\<lparr>defaultOptions := length h\<rparr>,
         h @ [object_spread (h ! defaultOptions s) (h ! options)]))"

subsection \<open>exportResult\<close>

text \<open>
  The calls made through \<open>ipcRenderer.invoke\<close> are recorded in a log of
  (channel, argument) pairs; \<open>invoke\<close> gives the outcome of the call. The
  \<open>catch\<close> block logs the error and throws it again.
\<close>

type_synonym ipc_log = "(string \<times> CheckResult) list"

definition exportResult ::
  "(string \<Rightarrow> CheckResult \<Rightarrow> js_object + unit) \<Rightarrow> CheckResult \<Rightarrow> string \<Rightarrow> ipc_log
     \<Rightarrow> (js_object + unit) \<times> ipc_log" where
  "exportResult invoke result format calls =
     (if format = ''json'' then
        (invoke ''export-json'' result, calls @ [(''export-json'', result)])
      else if format = ''html'' then
        (invoke ''export-html'' result, calls @ [(''export-html'', result)])
      else if format = ''pdf'' then
        (invoke ''export-pdf'' result, calls @ [(''export-pdf'', result)])
      else (Inl (new_Error msg_unsupported_format), calls))"

section \<open>The main process: the check-accessibility handler (lines 51-63)\<close>

text \<open>
  \<open>axios_post\<close> stands for \<open>axios.post\<close> to the backend: it resolves with a
  response, of which the handler returns \<open>data\<close>, or rejects with an error that has a
  \<open>message\<close> and, when the backend answered, the body of that answer.
\<close>

record AxiosError =
  ax_message :: string
  ax_response_data :: "js_object option"

definition check_url :: string where
  "check_url = ''http://127.0.0.1:8000/check''"

definition check_accessibility ::
  "(string \<Rightarrow> string \<Rightarrow> js_object \<Rightarrow> AxiosError + CheckResult) \<Rightarrow> string \<Rightarrow> js_object
     \<Rightarrow> js_object + CheckResult" where
  "check_accessibility axios_post u options =
     (case axios_post check_url u options of
        Inr response_data \<Rightarrow> Inr response_data
      | Inl error \<Rightarrow> Inl (new_Error (msg_check_failed_prefix @ ax_message error)))"

definition error_codes :: "string list" where
  "error_codes = [''invalid_url'', ''render_timeout'', ''navigation_error'', ''internal_error'']"

definition is_structured_error :: "js_object \<Rightarrow> bool" where
  "is_structured_error e =
     ((case get_prop e ''code'' of JStr c \<Rightarrow> List.member error_codes c | _ \<Rightarrow> False)
      \<and> (case get_prop e ''message'' of JStr m \<Rightarrow> True | _ \<Rightarrow> False))"

section \<open>The report view (views/ReportView.vue) and the checker view\<close>

subsection \<open>Arrays on the heap\<close>

text \<open>
  \<open>Array.prototype.filter\<close> allocates a new array and leaves its receiver alone;
  \<open>Array.prototype.sort\<close> sorts its receiver in place (stably) and returns the same
  reference. The comparator of the source subtracts the \<open>severityOrder\<close> ranks, which
  is a sort by that key.
\<close>

definition array_filter ::
  "(AccessibilityIssue \<Rightarrow> bool) \<Rightarrow> addr \<Rightarrow> array_heap \<Rightarrow> addr \<times> array_heap" where
  "array_filter P a h = (length h, h @ [filter P (h ! a)])"

definition array_slice :: "nat \<Rightarrow> nat \<Rightarrow> addr \<Rightarrow> array_heap \<Rightarrow> addr \<times> array_heap" where
  "array_slice i j a h = (length h, h @ [take (j - i) (drop i (h ! a))])"

definition array_sort ::
  "(AccessibilityIssue \<Rightarrow> nat) \<Rightarrow> addr \<Rightarrow> array_heap \<Rightarrow> addr \<times> array_heap" where
  "array_sort key a h = (a, h[a := sort_key key (h ! a)])"

fun severityOrder :: "Severity \<Rightarrow> nat" where
  "severityOrder Critical = 0"
| "severityOrder High = 1"
| "severityOrder Medium = 2"
| "severityOrder Low = 3"

subsection \<open>Computed properties\<close>

text \<open>\<open>route.params.id\<close> is absent or a string; the empty string is falsy.\<close>

definition report_currentResult :: "string option \<Rightarrow> CheckerStore \<Rightarrow> CheckResult option" where
  "report_currentResult route_id s =
     (case route_id of
        None \<Rightarrow> currentResult s
      | Some ident \<Rightarrow> if ident \<noteq> [] then fst (getResultById ident s) else currentResult s)"

text \<open>
  \<open>filteredIssues\<close>: the local variable \<open>issues\<close> starts as the result's own array and
  is rebound to a new array by each filter that is selected; the array it then refers to
  is sorted. The value of the computed property is the returned reference.
\<close>

definition filteredIssues ::
  "string \<Rightarrow> string \<Rightarrow> CheckResult option \<Rightarrow> array_heap \<Rightarrow> addr \<times> array_heap" where
  "filteredIssues selectedSeverity selectedCategory cur h =
     (case cur of
        None \<Rightarrow> (length h, h @ [[]])
      | Some result \<Rightarrow>
          (case (if selectedSeverity \<noteq> []
                 then array_filter (\<lambda>issue. severity_name (severity issue) = selectedSeverity)
                        (issues result) h
                 else (issues result, h)) of
             (issues1, h1) \<Rightarrow>
               (case (if selectedCategory \<noteq> []
                      then array_filter (\<lambda>issue. issue_type issue = selectedCategory) issues1 h1
                      else (issues1, h1)) of
                  (issues2, h2) \<Rightarrow>
                    array_sort (\<lambda>issue. severityOrder (severity issue)) issues2 h2)))"

definition priorityIssues :: "CheckResult option \<Rightarrow> array_heap \<Rightarrow> addr \<times> array_heap" where
  "priorityIssues cur h =
     (case cur of
        None \<Rightarrow> (length h, h @ [[]])
      | Some result \<Rightarrow>
          (case array_filter (\<lambda>issue. severity issue = Critical \<or> severity issue = High)
                  (issues result) h of
             (filtered, h1) \<Rightarrow> array_slice 0 5 filtered h1))"

subsection \<open>Score bands\<close>

text \<open>The two copies of \<open>getScoreColor\<close> and \<open>getScoreBarColor\<close>, as written.\<close>

definition getScoreColor_ReportView :: "rat \<Rightarrow> string" where
  "getScoreColor_ReportView sc =
     (if sc \<ge> 90 then ''text-green-600''
      else if sc \<ge> 80 then ''text-blue-600''
      else if sc \<ge> 70 then ''text-yellow-600''
      else if sc \<ge> 60 then ''text-orange-600''
      else ''text-red-600'')"

definition getScoreBarColor :: "rat \<Rightarrow> string" where
  "getScoreBarColor sc =
     (if sc \<ge> 90 then ''bg-green-500''
      else if sc \<ge> 80 then ''bg-blue-500''
      else if sc \<ge> 70 then ''bg-yellow-500''
      else if sc \<ge> 60 then ''bg-orange-500''
      else ''bg-red-500'')"

definition getScoreColor_CheckerView :: "rat \<Rightarrow> string" where
  "getScoreColor_CheckerView sc =
     (if sc \<ge> 90 then ''text-green-600''
      else if sc \<ge> 80 then ''text-blue-600''
      else if sc \<ge> 70 then ''text-yellow-600''
      else if sc \<ge> 60 then ''text-orange-600''
      else ''text-red-600'')"

text \<open>
  The ladder in the words of the specification (section 4.3): a configuration table of
  thresholds, read from the top; a score below every threshold is in the last band.
  The colour of a band is the one the views show for it.
\<close>

datatype Grade = Grade_A | Grade_B | Grade_C | Grade_D | Grade_F

fun spec_grade_ladder :: "(rat \<times> Grade) list \<Rightarrow> rat \<Rightarrow> Grade" where
  "spec_grade_ladder [] sc = Grade_F"
| "spec_grade_ladder ((threshold, g) # table) sc =
     (if sc \<ge> threshold then g else spec_grade_ladder table sc)"

definition spec_grade_thresholds :: "(rat \<times> Grade) list" where
  "spec_grade_thresholds = [(90, Grade_A), (80, Grade_B), (70, Grade_C), (60, Grade_D)]"

fun band_text_color :: "Grade \<Rightarrow> string" where
  "band_text_color Grade_A = ''text-green-600''"
| "band_text_color Grade_B = ''text-blue-600''"
| "band_text_color Grade_C = ''text-yellow-600''"
| "band_text_color Grade_D = ''text-orange-600''"
| "band_text_color Grade_F = ''text-red-600''"

fun band_bar_color :: "Grade \<Rightarrow> string" where
  "band_bar_color Grade_A = ''bg-green-500''"
| "band_bar_color Grade_B = ''bg-blue-500''"
| "band_bar_color Grade_C = ''bg-yellow-500''"
| "band_bar_color Grade_D = ''bg-orange-500''"
| "band_bar_color Grade_F = ''bg-red-500''"

section \<open>The scoring engine\<close>

text \<open>
  The scoring engine and the weight normalisation belong to the backend, which is not
  among the sources; of the scoring, the sources hold the README's table of weights
  (above) and its table of penalty bands. The definitions of this section follow the
  words of the specification (sections 3 and 4.3).
\<close>





text \<open>
  Modelled from the spec: the enabled categories of the missing checker registry; a
  subset of the six categories is given by its membership test.
\<close>

definition enabled_categories :: "(Category \<Rightarrow> bool) \<Rightarrow> Category list" where
  "enabled_categories en = filter en all_categories"

text \<open>
  Modelled from the spec: the missing re-normalisation of the weights, each enabled
  category's weight divided by the sum of the enabled categories' weights.
\<close>

definition normalized_weight :: "Category list \<Rightarrow> Category \<Rightarrow> rat" where
  "normalized_weight enabled c = category_weight c / sum_list (map category_weight enabled)"

text \<open>
  Modelled from the spec: the sum of the normalised weights over the enabled
  categories, the quantity the missing registry keeps at 1.
\<close>

definition normalized_weights_sum :: "Category list \<Rightarrow> rat" where
  "normalized_weights_sum enabled = sum_list (map (normalized_weight enabled) enabled)"

text \<open>
  Modelled from the spec: rounding to one decimal in the missing scoring engine (a half
  is rounded up).
\<close>

definition round1 :: "rat \<Rightarrow> rat" where
  "round1 x = of_int (round (x * 10)) / 10"

text \<open>
  Modelled from the spec: the weighted sum of the missing scoring engine, category score
  times normalised weight over the categories present in the result.
\<close>

definition weighted_sum :: "(Category \<times> rat) list \<Rightarrow> rat" where
  "weighted_sum cs = sum_list (map (\<lambda>(c, sc). sc * normalized_weight (map fst cs) c) cs)"

text \<open>
  Modelled from the spec: the total score of the missing scoring engine, the weighted
  sum rounded to one decimal.
\<close>

definition total_score_of :: "(Category \<times> rat) list \<Rightarrow> rat" where
  "total_score_of cs = round1 (weighted_sum cs)"

text \<open>
  Modelled from the spec: the invariant of CategoryScore (section 3), a score between
  0 and 100, for each category present.
\<close>

definition scores_in_range :: "(Category \<times> rat) list \<Rightarrow> bool" where
  "scores_in_range cs = list_all (\<lambda>(c, sc). 0 \<le> sc \<and> sc \<le> 100) cs"

section \<open>Test data\<close>

definition sample_result :: "string \<Rightarrow> string \<Rightarrow> CheckResult" where
  "sample_result u t =
     \<lparr>url = u, total_score = 80, category_scores = [], issues = 0, summary = [],
      checked_at = t, check_duration = 3\<rparr>"

definition empty_store :: CheckerStore where
  "empty_store =
     \<lparr>isChecking = False, currentStep = [], progress = 0, checkResults = [],
      currentResult = None, defaultOptions = 0\<rparr>"

definition low_issue :: AccessibilityIssue where
  "low_issue =
     \<lparr>issue_type = ''image'', severity = Low, message = ''decorative image has a title'',
      description = ''d1'', element = None, line_number = None, recommendation = ''r1'',
      wcag_reference = None\<rparr>"

definition critical_issue :: AccessibilityIssue where
  "critical_issue =
     \<lparr>issue_type = ''aria'', severity = Critical, message = ''button has no accessible name'',
      description = ''d2'', element = None, line_number = None, recommendation = ''r2'',
      wcag_reference = None\<rparr>"

definition rejecting_backend :: "string \<Rightarrow> string \<Rightarrow> js_object \<Rightarrow> AxiosError + CheckResult" where
  "rejecting_backend endpoint u options =
     Inl \<lparr>ax_message = ''Request failed with status code 400'',
          ax_response_data =
            Some [(''code'', JStr ''invalid_url''), (''message'', JStr ''bad scheme'')]\<rparr>"

definition resolving_export :: "string \<Rightarrow> CheckResult \<Rightarrow> js_object + unit" where
  "resolving_export channel result = Inr ()"

section \<open>The result history\<close>

lemma find_first_split:
  "List.find P xs = Some x \<Longrightarrow>
     \<exists>pre post. xs = pre @ x # post \<and> P x \<and> (\<forall>p \<in> set pre. \<not> P p)"
proof (induction xs)
  case Nil
  then show ?case by simp
next
  case (Cons a xs)
  show ?case
  proof (cases "P a")
    case True
    with Cons.prems have "a = x" by simp
    with True have "a # xs = [] @ x # xs \<and> P x \<and> (\<forall>p \<in> set []. \<not> P p)" by simp
    then show ?thesis by blast
  next
    case False
    with Cons.prems have "List.find P xs = Some x" by simp
    from Cons.IH [OF this] obtain pre post
      where "xs = pre @ x # post" "P x" "\<forall>p \<in> set pre. \<not> P p" by blast
    with False have "a # xs = (a # pre) @ x # post \<and> P x \<and> (\<forall>p \<in> set (a # pre). \<not> P p)"
      by simp
    then show ?thesis by blast
  qed
qed

text \<open>
  C9. \<open>addResult\<close> puts the result in front of the stored history and keeps the first
  ten entries, in their order, and changes nothing else of the store. So after every
  call the history holds at most ten results, the result just added is at index 0 and
  \<open>latestResult\<close> returns it; \<open>latestResult\<close> is the head of the history, and
  \<open>null\<close> on an empty one.
\<close>

theorem addResult_bounded_newest_first:
  "length (checkResults (addResult r s)) \<le> 10
   \<and> checkResults (addResult r s) ! 0 = r
   \<and> latestResult (addResult r s) = Some r
   \<and> latestResult (s\<lparr>checkResults := []\<rparr>) = None
   \<and> checkResults (addResult r s) = take 10 (r # checkResults s)
   \<and> addResult r s = s\<lparr>checkResults := r # take 9 (checkResults s)\<rparr>
   \<and> latestResult s = (case checkResults s of [] \<Rightarrow> None | x # xs \<Rightarrow> Some x)"
proof -
  have t: "checkResults (addResult r s) = take 10 (r # checkResults s)"
    by (simp add: addResult_def Let_def)
  have n: "take 10 (r # checkResults s) = r # take 9 (checkResults s)"
    by (simp add: take_Cons')
  have w: "addResult r s = s\<lparr>checkResults := r # take 9 (checkResults s)\<rparr>"
  proof (cases "9 < length (checkResults s)")
    case True
    then show ?thesis by (simp add: addResult_def Let_def take_Cons')
  next
    case False
    then show ?thesis by (simp add: addResult_def Let_def)
  qed
  have l: "latestResult s = (case checkResults s of [] \<Rightarrow> None | x # xs \<Rightarrow> Some x)"
    by (cases "checkResults s") (simp_all add: latestResult_def)
  have a: "length (checkResults (addResult r s)) \<le> 10" using t by simp
  have b: "checkResults (addResult r s) ! 0 = r" using t n by simp
  have c: "latestResult (addResult r s) = Some r" using t n by (simp add: latestResult_def)
  have d: "latestResult (s\<lparr>checkResults := []\<rparr>) = None" by (simp add: latestResult_def)
  from a b c d t w l show ?thesis by simp
qed

text \<open>
  C10. \<open>getResultById\<close> returns the first stored result whose \<open>checked_at\<close> equals the
  id, \<open>null\<close> exactly when no stored result has it, and leaves the store as it was.
\<close>

theorem getResultById_first_match:
  "snd (getResultById ident s) = s
   \<and> (case fst (getResultById ident s) of
        None \<Rightarrow> \<forall>r \<in> set (checkResults s). checked_at r \<noteq> ident
      | Some r \<Rightarrow>
          \<exists>pre post. checkResults s = pre @ r # post \<and> checked_at r = ident
                      \<and> (\<forall>p \<in> set pre. checked_at p \<noteq> ident))"
proof (cases "List.find (\<lambda>result. checked_at result = ident) (checkResults s)")
  case None
  then have "\<forall>r \<in> set (checkResults s). checked_at r \<noteq> ident"
    by (simp add: find_None_iff)
  with None show ?thesis by (simp add: getResultById_def)
next
  case (Some r)
  from find_first_split [OF Some] show ?thesis
    using Some by (simp add: getResultById_def)
qed

theorem getResultById_first_match_witness:
  "fst (getResultById ''t2''
          (empty_store\<lparr>checkResults :=
             [sample_result ''a'' ''t1'', sample_result ''b'' ''t2'', sample_result ''c'' ''t2'']\<rparr>))
     = Some (sample_result ''b'' ''t2'')
   \<and> fst (getResultById ''t9''
          (empty_store\<lparr>checkResults :=
             [sample_result ''a'' ''t1'', sample_result ''b'' ''t2'', sample_result ''c'' ''t2'']\<rparr>))
     = None"
  using getResultById_first_match [of "''t2''"
          "empty_store\<lparr>checkResults :=
             [sample_result ''a'' ''t1'', sample_result ''b'' ''t2'', sample_result ''c'' ''t2'']\<rparr>"]
  by (simp add: getResultById_def sample_result_def empty_store_def)

section \<open>Weights, category scores and the total score\<close>

lemma category_weight_pos: "0 < category_weight c"
  by (cases c) (simp_all add: category_weight_def)

lemma sum_weights_nonneg: "0 \<le> sum_list (map category_weight xs)"
  by (induction xs) (simp_all add: add_nonneg_nonneg less_imp_le [OF category_weight_pos])

lemma sum_weights_pos: "xs \<noteq> [] \<Longrightarrow> 0 < sum_list (map category_weight xs)"
proof (cases xs)
  case Nil
  assume "xs \<noteq> []"
  with Nil show ?thesis by simp
next
  case (Cons c cs)
  have "0 < category_weight c + sum_list (map category_weight cs)"
    using category_weight_pos [of c] sum_weights_nonneg [of cs] by linarith
  with Cons show ?thesis by simp
qed

lemma sum_list_divide_const:
  fixes f :: "'a \<Rightarrow> rat"
  shows "sum_list (map (\<lambda>x. f x / t) xs) = sum_list (map f xs) / t"
  by (induction xs) (simp_all add: add_divide_distrib)

lemma normalized_weights_sum_nonempty:
  assumes "enabled \<noteq> []"
  shows "normalized_weights_sum enabled = 1"
proof -
  have pos: "0 < sum_list (map category_weight enabled)"
    using assms by (rule sum_weights_pos)
  have "normalized_weights_sum enabled
          = sum_list (map category_weight enabled) / sum_list (map category_weight enabled)"
    unfolding normalized_weights_sum_def normalized_weight_def
    by (rule sum_list_divide_const)
  with pos show ?thesis by simp
qed

lemma default_weights_total: "sum_list (map category_weight all_categories) = 1"
  by (simp add: all_categories_def category_weight_def)

lemma enabled_nonempty: "en c \<Longrightarrow> enabled_categories en \<noteq> []"
proof -
  assume "en c"
  moreover have "c \<in> set all_categories" by (cases c) (simp_all add: all_categories_def)
  ultimately have "c \<in> set (enabled_categories en)" by (simp add: enabled_categories_def)
  then show ?thesis by auto
qed

text \<open>
  C3, as amended. For every non-empty subset of the six categories the normalised
  weights of the enabled categories sum to 1, and the README's weight table itself
  (25, 20, 15, 15, 10 and 15 percent) sums to 1.
\<close>

theorem normalized_weights_sum_to_one:
  assumes "\<exists>c. en c"
  shows "normalized_weights_sum (enabled_categories en) = 1
       \<and> sum_list (map category_weight all_categories) = 1"
proof -
  from assms obtain c where "en c" by blast
  then have "enabled_categories en \<noteq> []" by (rule enabled_nonempty)
  then have "normalized_weights_sum (enabled_categories en) = 1"
    by (rule normalized_weights_sum_nonempty)
  with default_weights_total show ?thesis by simp
qed

text \<open>With Media and Keyboard disabled, ARIA weighs 25/70 and the four weights sum to 1.\<close>

theorem normalized_weights_sum_to_one_witness:
  "(\<exists>c. c \<noteq> Media \<and> c \<noteq> Keyboard)
   \<and> enabled_categories (\<lambda>c. c \<noteq> Media \<and> c \<noteq> Keyboard) = [ARIA, Semantic, Image, Visual]
   \<and> normalized_weight [ARIA, Semantic, Image, Visual] ARIA = 5 / 14
   \<and> normalized_weights_sum (enabled_categories (\<lambda>c. c \<noteq> Media \<and> c \<noteq> Keyboard)) = 1"
proof -
  have h: "\<exists>c. c \<noteq> Media \<and> c \<noteq> Keyboard" by (rule exI [of _ ARIA]) simp
  have e: "enabled_categories (\<lambda>c. c \<noteq> Media \<and> c \<noteq> Keyboard) = [ARIA, Semantic, Image, Visual]"
    by (simp add: enabled_categories_def all_categories_def)
  have n: "normalized_weight [ARIA, Semantic, Image, Visual] ARIA = 5 / 14"
    by (simp add: normalized_weight_def category_weight_def)
  from h e n normalized_weights_sum_to_one [OF h] show ?thesis by simp
qed

text \<open>
  C3 as stated fails for the empty subset (every category disabled): there is no weight
  left to normalise, and the sum is 0.
\<close>

theorem empty_subset_weights_counterexample:
  "normalized_weights_sum (enabled_categories (\<lambda>c. False)) \<noteq> 1"
  by (simp add: normalized_weights_sum_def enabled_categories_def)

lemma normalized_weight_nonneg: "0 \<le> normalized_weight enabled c"
  unfolding normalized_weight_def
  using category_weight_pos [of c] sum_weights_nonneg [of enabled]
  by simp

lemma weighted_bounds:
  fixes w :: "Category \<Rightarrow> rat"
  assumes "\<And>c. 0 \<le> w c" and "list_all (\<lambda>(c, sc). 0 \<le> sc \<and> sc \<le> 100) cs"
  shows "0 \<le> sum_list (map (\<lambda>(c, sc). sc * w c) cs)
       \<and> sum_list (map (\<lambda>(c, sc). sc * w c) cs) \<le> 100 * sum_list (map w (map fst cs))"
  using assms(2)
proof (induction cs)
  case Nil
  then show ?case by simp
next
  case (Cons p cs)
  obtain c sc where p: "p = (c, sc)" by (cases p)
  from Cons.prems p have r: "0 \<le> sc" "sc \<le> 100" and rest: "list_all (\<lambda>(c, sc). 0 \<le> sc \<and> sc \<le> 100) cs"
    by simp_all
  from Cons.IH [OF rest] have ih: "0 \<le> sum_list (map (\<lambda>(c, sc). sc * w c) cs)"
    "sum_list (map (\<lambda>(c, sc). sc * w c) cs) \<le> 100 * sum_list (map w (map fst cs))" by simp_all
  have a: "0 \<le> sc * w c" using r(1) assms(1) [of c] by simp
  have b: "sc * w c \<le> 100 * w c" using r(2) assms(1) [of c] by (rule mult_right_mono)
  from a b ih p show ?case by (simp add: algebra_simps)
qed

lemma weighted_sum_bounds:
  assumes "scores_in_range cs"
  shows "0 \<le> weighted_sum cs \<and> weighted_sum cs \<le> 100"
proof -
  let ?w = "normalized_weight (map fst cs)"
  from assms have r: "list_all (\<lambda>(c, sc). 0 \<le> sc \<and> sc \<le> 100) cs"
    by (simp add: scores_in_range_def)
  have b: "0 \<le> weighted_sum cs" "weighted_sum cs \<le> 100 * sum_list (map ?w (map fst cs))"
    using weighted_bounds [of ?w cs, OF normalized_weight_nonneg r]
    by (simp_all add: weighted_sum_def)
  have "sum_list (map ?w (map fst cs)) \<le> 1"
  proof (cases "cs = []")
    case True
    then show ?thesis by simp
  next
    case False
    then have "map fst cs \<noteq> []" by simp
    from normalized_weights_sum_nonempty [OF this] show ?thesis
      by (simp add: normalized_weights_sum_def)
  qed
  with b show ?thesis by linarith
qed

lemma round1_bounds:
  assumes "0 \<le> x" and "x \<le> 100"
  shows "0 \<le> round1 x \<and> round1 x \<le> 100"
proof -
  have "round (0::rat) \<le> round (x * 10)" using assms(1) by (intro round_mono) simp
  then have lo: "0 \<le> round (x * 10)" by simp
  have "round (x * 10) \<le> round (1000::rat)" using assms(2) by (intro round_mono) simp
  then have hi: "round (x * 10) \<le> 1000" by simp
  from lo have "(0::rat) \<le> of_int (round (x * 10))" by simp
  moreover from hi have "(of_int (round (x * 10))::rat) \<le> of_int 1000" by (simp only: of_int_le_iff)
  ultimately show ?thesis by (simp add: round1_def)
qed

text \<open>
  C1. When every present category score lies in [0, 100], the total score is the sum of
  score times normalised weight over the present categories, rounded to one decimal,
  and lies in [0, 100].
\<close>

theorem total_score_weighted_sum_in_range:
  assumes "scores_in_range cs"
  shows "0 \<le> total_score_of cs \<and> total_score_of cs \<le> 100
       \<and> total_score_of cs
           = round1 (sum_list (map (\<lambda>(c, sc). sc * normalized_weight (map fst cs) c) cs))"
  using round1_bounds weighted_sum_bounds [OF assms]
  by (simp add: total_score_of_def weighted_sum_def)

text \<open>ARIA at 100 and Image at 50: 62.5 + 18.75 = 81.25, rounded to 81.3.\<close>

theorem total_score_weighted_sum_in_range_witness:
  "scores_in_range [(ARIA, 100), (Image, 50)]
   \<and> total_score_of [(ARIA, 100), (Image, 50)] = 813 / 10
   \<and> 0 \<le> total_score_of [(ARIA, 100), (Image, 50)]
   \<and> total_score_of [(ARIA, 100), (Image, 50)] \<le> 100"
proof -
  have h: "scores_in_range [(ARIA, 100), (Image, 50)]" by (simp add: scores_in_range_def)
  have v: "total_score_of [(ARIA, 100), (Image, 50)] = 813 / 10"
    by (simp add: total_score_of_def weighted_sum_def normalized_weight_def category_weight_def round1_def round_def)
  from h v total_score_weighted_sum_in_range [OF h] show ?thesis by simp
qed









section \<open>Score bands\<close>

text \<open>
  C5, as amended. Each of the three functions that derive a band from a score applies
  the ladder 90, 80, 70, 60 of the specification, so they all agree; the thresholds are
  the literals of each function.
\<close>

theorem score_bands_same_fixed_ladder:
  "getScoreColor_ReportView sc = band_text_color (spec_grade_ladder spec_grade_thresholds sc)
   \<and> getScoreColor_CheckerView sc = band_text_color (spec_grade_ladder spec_grade_thresholds sc)
   \<and> getScoreBarColor sc = band_bar_color (spec_grade_ladder spec_grade_thresholds sc)
   \<and> getScoreColor_CheckerView sc = getScoreColor_ReportView sc"
  by (simp add: getScoreColor_ReportView_def getScoreColor_CheckerView_def getScoreBarColor_def
      spec_grade_thresholds_def)

text \<open>
  C5 as stated has the thresholds come from a configuration table. The functions take
  the score alone: under a table whose top threshold is 95 the ladder puts 92 in the
  second band, and \<open>getScoreColor\<close> still returns the colour of the top band.
\<close>

theorem thresholds_not_from_configuration_counterexample:
  "getScoreColor_ReportView 92 = ''text-green-600''
   \<and> band_text_color
        (spec_grade_ladder [(95, Grade_A), (80, Grade_B), (70, Grade_C), (60, Grade_D)] 92)
       = ''text-blue-600''
   \<and> \<not> (\<forall>table sc. getScoreColor_ReportView sc = band_text_color (spec_grade_ladder table sc))"
proof -
  have a: "getScoreColor_ReportView 92 = ''text-green-600''"
    by (simp add: getScoreColor_ReportView_def)
  have b: "band_text_color
        (spec_grade_ladder [(95, Grade_A), (80, Grade_B), (70, Grade_C), (60, Grade_D)] 92)
       = ''text-blue-600''" by simp
  have "\<not> (\<forall>table sc. getScoreColor_ReportView sc = band_text_color (spec_grade_ladder table sc))"
  proof
    assume "\<forall>table sc. getScoreColor_ReportView sc = band_text_color (spec_grade_ladder table sc)"
    then have "getScoreColor_ReportView 92 = band_text_color
        (spec_grade_ladder [(95, Grade_A), (80, Grade_B), (70, Grade_C), (60, Grade_D)] 92)"
      by blast
    with a b show False by simp
  qed
  with a b show ?thesis by blast
qed

section \<open>The report view and the stored result\<close>

text \<open>
  With a severity or a category filter selected, \<open>filteredIssues\<close> sorts the array
  that \<open>filter\<close> allocated, and the array of the stored result keeps its order.
\<close>

lemma filtered_sort_leaves_result_array:
  assumes "issues result < length h" and "selectedSeverity \<noteq> [] \<or> selectedCategory \<noteq> []"
  shows "snd (filteredIssues selectedSeverity selectedCategory (Some result) h) ! issues result
           = h ! issues result"
  using assms
  by (auto simp: filteredIssues_def array_filter_def array_sort_def nth_append)

text \<open>
  With no filter selected the sorted array is the array of the stored result: its
  content is replaced by the content sorted by severity.
\<close>

lemma unfiltered_sort_rewrites_result_array:
  assumes "issues result < length h"
  shows "snd (filteredIssues [] [] (Some result) h) ! issues result
           = sort_key (\<lambda>issue. severityOrder (severity issue)) (h ! issues result)"
  using assms by (simp add: filteredIssues_def array_sort_def)

text \<open>
  C2. A result is to stay as it was produced under every later operation. With no filter
  selected (the state in which the report opens) \<open>filteredIssues\<close> sorts the array of
  the stored result itself: a result whose issues are a low one followed by a critical
  one holds, after the report has been displayed, the critical one first.
\<close>

theorem filteredIssues_sorts_stored_issues_in_place:
  "report_currentResult None (empty_store\<lparr>currentResult := Some (sample_result ''u'' ''t'')\<rparr>)
     = Some (sample_result ''u'' ''t'')
   \<and> filteredIssues [] [] (Some (sample_result ''u'' ''t'')) [[low_issue, critical_issue]]
     = (issues (sample_result ''u'' ''t''), [[critical_issue, low_issue]])
   \<and> snd (filteredIssues [] [] (Some (sample_result ''u'' ''t'')) [[low_issue, critical_issue]])
         ! issues (sample_result ''u'' ''t'')
       \<noteq> [[low_issue, critical_issue]] ! issues (sample_result ''u'' ''t'')"
  by (simp add: filteredIssues_def sample_result_def array_sort_def low_issue_def
      critical_issue_def sort_key_def report_currentResult_def empty_store_def)

section \<open>Export\<close>

text \<open>
  C8. \<open>exportResult\<close> makes exactly one call for each of the formats json, html and
  pdf, on the channel of that format and with the result it was given; for every other
  format it throws an error and makes no call.
\<close>

theorem exportResult_dispatch:
  "exportResult invoke result ''json'' calls
      = (invoke ''export-json'' result, calls @ [(''export-json'', result)])
   \<and> exportResult invoke result ''html'' calls
      = (invoke ''export-html'' result, calls @ [(''export-html'', result)])
   \<and> exportResult invoke result ''pdf'' calls
      = (invoke ''export-pdf'' result, calls @ [(''export-pdf'', result)])
   \<and> (format \<notin> {''json'', ''html'', ''pdf''} \<longrightarrow>
        exportResult invoke result format calls = (Inl (new_Error msg_unsupported_format), calls))"
  by (simp add: exportResult_def)

text \<open>The format xml is refused with no call; pdf goes to the channel export-pdf.\<close>

theorem exportResult_dispatch_witness:
  "''xml'' \<notin> {''json'', ''html'', ''pdf''}
   \<and> exportResult resolving_export (sample_result ''u'' ''t'') ''xml'' []
       = (Inl (new_Error msg_unsupported_format), [])
   \<and> exportResult resolving_export (sample_result ''u'' ''t'') ''pdf'' []
       = (Inr (), [(''export-pdf'', sample_result ''u'' ''t'')])"
  using exportResult_dispatch [of resolving_export "sample_result ''u'' ''t''" "[]" "''xml''"]
  by (simp add: resolving_export_def)

section \<open>Failure of a check request\<close>

lemma new_Error_props:
  "get_prop (new_Error m) ''message'' = JStr m \<and> get_prop (new_Error m) ''code'' = JUndefined"
  by (simp add: new_Error_def get_prop_def)

text \<open>
  C7, as amended. When the request to the backend fails, the handler throws an error
  whose message is the fixed prefix followed by the message of the failure, and which
  has no code; when it succeeds the handler returns the data of the response. In the
  renderer, \<open>startCheck\<close> returns or throws again what \<open>ipcRenderer.invoke\<close> resolved
  or rejected with, as it is; the transport between the two processes is Electron's and
  stays a parameter.
\<close>

theorem check_failure_is_message_only_error:
  "(axios_post check_url u options = Inl err \<longrightarrow>
      (\<exists>e. check_accessibility axios_post u options = Inl e
           \<and> get_prop e ''message'' = JStr (msg_check_failed_prefix @ ax_message err)
           \<and> get_prop e ''code'' = JUndefined))
   \<and> (axios_post check_url u options = Inr d \<longrightarrow>
        check_accessibility axios_post u options = Inr d)
   \<and> fst (startCheck invoke u opts (s, h))
       = invoke ''check-accessibility'' u
           (object_spread (h ! defaultOptions s) (case opts of None \<Rightarrow> [] | Some a \<Rightarrow> h ! a))"
proof -
  have a: "axios_post check_url u options = Inl err \<longrightarrow>
      (\<exists>e. check_accessibility axios_post u options = Inl e
           \<and> get_prop e ''message'' = JStr (msg_check_failed_prefix @ ax_message err)
           \<and> get_prop e ''code'' = JUndefined)"
    by (simp add: check_accessibility_def new_Error_props)
  have b: "axios_post check_url u options = Inr d \<longrightarrow>
        check_accessibility axios_post u options = Inr d"
    by (simp add: check_accessibility_def)
  have c: "fst (startCheck invoke u opts (s, h))
       = invoke ''check-accessibility'' u
           (object_spread (h ! defaultOptions s) (case opts of None \<Rightarrow> [] | Some a \<Rightarrow> h ! a))"
    by (simp add: startCheck_def Let_def split: sum.split)
  from a b c show ?thesis by blast
qed

text \<open>A backend that answers 400 with the body {code: invalid_url, message}.\<close>

theorem check_failure_is_message_only_error_witness:
  "rejecting_backend check_url ''ftp://example.org'' initial_defaultOptions
     = Inl \<lparr>ax_message = ''Request failed with status code 400'',
            ax_response_data =
              Some [(''code'', JStr ''invalid_url''), (''message'', JStr ''bad scheme'')]\<rparr>
   \<and> check_accessibility rejecting_backend ''ftp://example.org'' initial_defaultOptions
     = Inl (new_Error (msg_check_failed_prefix @ ''Request failed with status code 400''))"
  using check_failure_is_message_only_error
    [of rejecting_backend "''ftp://example.org''" initial_defaultOptions
        "\<lparr>ax_message = ''Request failed with status code 400'',
            ax_response_data =
              Some [(''code'', JStr ''invalid_url''), (''message'', JStr ''bad scheme'')]\<rparr>"]
  by (simp add: rejecting_backend_def check_accessibility_def)

text \<open>
  C7 as stated fails: for that backend the error that reaches the caller has no code, so
  it is none of the four stable codes.
\<close>

theorem unstructured_error_counterexample:
  "\<exists>e. check_accessibility rejecting_backend ''ftp://example.org'' initial_defaultOptions = Inl e
       \<and> get_prop e ''code'' = JUndefined \<and> \<not> is_structured_error e"
  by (simp add: check_accessibility_def rejecting_backend_def new_Error_props
      is_structured_error_def)

section \<open>CheckOptions\<close>

text \<open>
  C6, as amended. CheckOptions has five enable flags (aria, semantic, image, media,
  visual), \<open>include_screenshots\<close> and \<open>wait_time\<close>. \<open>startCheck\<close> and
  \<open>updateOptions\<close> only add one new object, the merge, to the heap: every object
  that existed before, the caller's options among them, is unchanged, and
  \<open>startCheck\<close> leaves \<open>defaultOptions\<close> pointing where it did.
\<close>

theorem CheckOptions_five_flags_options_not_mutated:
  "map fst initial_defaultOptions = CheckOptions_keys
   \<and> filter is_enable_flag CheckOptions_keys
       = [''enable_aria_check'', ''enable_semantic_check'', ''enable_image_check'',
          ''enable_media_check'', ''enable_visual_check'']
   \<and> filter (\<lambda>k. \<not> is_enable_flag k) CheckOptions_keys = [''include_screenshots'', ''wait_time'']
   \<and> snd (snd (startCheck invoke u opts (s, h)))
       = h @ [object_spread (h ! defaultOptions s) (case opts of None \<Rightarrow> [] | Some a \<Rightarrow> h ! a)]
   \<and> take (length h) (snd (snd (startCheck invoke u opts (s, h)))) = h
   \<and> defaultOptions (fst (snd (startCheck invoke u opts (s, h)))) = defaultOptions s
   \<and> snd (updateOptions a (s, h)) = h @ [object_spread (h ! defaultOptions s) (h ! a)]
   \<and> defaultOptions (fst (updateOptions a (s, h))) = length h"
proof -
  have k: "map fst initial_defaultOptions = CheckOptions_keys"
    by (simp add: initial_defaultOptions_def CheckOptions_keys_def)
  have f: "filter is_enable_flag CheckOptions_keys
       = [''enable_aria_check'', ''enable_semantic_check'', ''enable_image_check'',
          ''enable_media_check'', ''enable_visual_check'']"
    by (simp add: CheckOptions_keys_def is_enable_flag_def)
  have g: "filter (\<lambda>k. \<not> is_enable_flag k) CheckOptions_keys = [''include_screenshots'', ''wait_time'']"
    by (simp add: CheckOptions_keys_def is_enable_flag_def)
  have h1: "snd (snd (startCheck invoke u opts (s, h)))
       = h @ [object_spread (h ! defaultOptions s) (case opts of None \<Rightarrow> [] | Some a \<Rightarrow> h ! a)]"
    by (simp add: startCheck_def Let_def split: sum.split)
  have d: "defaultOptions (fst (snd (startCheck invoke u opts (s, h)))) = defaultOptions s"
    by (simp add: startCheck_def Let_def steps_def addResult_def split: sum.split)
  have u: "snd (updateOptions a (s, h)) = h @ [object_spread (h ! defaultOptions s) (h ! a)]"
    "defaultOptions (fst (updateOptions a (s, h))) = length h"
    by (simp_all add: updateOptions_def)
  from k f g h1 d u show ?thesis by simp
qed

text \<open>
  C6 as stated fails: the weight table has six categories and CheckOptions five enable
  flags, so no assignment gives each category a flag of its own (there is none for
  keyboard navigation).
\<close>

theorem six_categories_five_flags_counterexample:
  "\<not> (\<exists>flag. inj_on flag (set all_categories)
         \<and> flag ` set all_categories \<subseteq> set (filter is_enable_flag CheckOptions_keys))"
proof
  assume "\<exists>flag. inj_on flag (set all_categories)
         \<and> flag ` set all_categories \<subseteq> set (filter is_enable_flag CheckOptions_keys)"
  then obtain flag where inj: "inj_on flag (set all_categories)"
    and sub: "flag ` set all_categories \<subseteq> set (filter is_enable_flag CheckOptions_keys)"
    by blast
  have six: "card (set all_categories) = 6" by (simp add: all_categories_def)
  from inj six have "card (flag ` set all_categories) = 6" by (simp add: card_image)
  moreover have "card (set (filter is_enable_flag CheckOptions_keys)) = 5"
    by (simp add: CheckOptions_keys_def is_enable_flag_def)
  moreover from sub have "card (flag ` set all_categories)
      \<le> card (set (filter is_enable_flag CheckOptions_keys))"
    by (simp add: card_mono)
  ultimately show False by simp
qed

end
